theory Spec2Isabelle
  imports Complex_Main "HOL-Library.Multiset"
begin

section \<open>The rating controllers of SwapIt\<close>

text \<open>
  A shallow embedding of \<^verbatim>\<open>backend/controllers/ratingController.js\<close>. Every handler
  is a function from the store and the request to an outcome: the JSON reply, the store
  after the request, and the list of calls the handler made on the store, in order.

  Modelling decisions:
  \<^item> Identifiers are strings. A request field that may be missing is an \<open>option\<close>;
    JavaScript's \<^verbatim>\<open>!x\<close> is true for a missing field, for the empty string and for the
    number zero.
  \<^item> Numbers are exact rationals. A finite double is a rational and its comparisons are
    the rational ones; the rounding of sums and quotients to doubles is not modelled.
  \<^item> The identifier syntax of the store (the cast to an ObjectId that the model layer
    performs on a string before it queries) is the field \<open>castable\<close> of the store: a query
    on an identifier that does not cast raises, and the handler's \<^verbatim>\<open>catch\<close> turns that
    into the reply 500. Nothing else raises in the model.
  \<^item> The schemas under \<^verbatim>\<open>models/\<close> are not part of the sources at hand; documents
    carry the fields the controller reads and writes, and saving a document stores it
    as the controller built it.
  \<^item> Times are natural numbers; the time of the request and the identifier generated for
    a new document are arguments of the handler.
\<close>

subsection \<open>Documents and the store\<close>

record user =
  user_id :: string
  fullname :: string
  email :: string
  role :: string
  profilePicture :: string

record skillListing =
  listing_id :: string
  title :: string
  description :: string
  fee :: rat
  category :: string

record session =
  session_learnerID :: string
  session_teacherID :: string
  skillListingID :: string
  session_status :: string

record rating_doc =
  rating_id :: string
  learnerID :: string
  teacherID :: string
  listingID :: string
  rating :: rat
  createdAt :: nat

record db =
  castable :: "string \<Rightarrow> bool"
  users :: "user list"
  listings :: "skillListing list"
  sessions :: "session list"
  ratings :: "rating_doc list"

datatype exn = CastError string

text \<open>The calls a handler makes on the store, with the identifiers it passes.\<close>

datatype store_call =
    User_findById_call string
  | User_findOne_call string
  | SkillListing_findById_call string
  | Session_findOne_call string string string
  | Rating_findOne_call string string string
  | Rating_findById_call string
  | Rating_save_call string
  | Rating_findByIdAndDelete_call string
  | Rating_find_listing_call string
  | Rating_find_learner_call string
  | Rating_find_teacher_call string

definition User_findById :: "db \<Rightarrow> string \<Rightarrow> exn + user option" where
  "User_findById d i =
     (if castable d i then Inr (find (\<lambda>u. user_id u = i) (users d)) else Inl (CastError i))"

text \<open>\<^verbatim>\<open>User.findOne({ _id: i })\<close>\<close>

definition User_findOne :: "db \<Rightarrow> string \<Rightarrow> exn + user option" where
  "User_findOne d i =
     (if castable d i then Inr (find (\<lambda>u. user_id u = i) (users d)) else Inl (CastError i))"

definition SkillListing_findById ::"db \<Rightarrow> string \<Rightarrow> exn + skillListing option" where
  "SkillListing_findById d i =
     (if castable d i then Inr (find (\<lambda>l. listing_id l = i) (listings d))
      else Inl (CastError i))"

definition Session_findOne :: "db \<Rightarrow> string \<Rightarrow> string \<Rightarrow> string \<Rightarrow> string \<Rightarrow> exn + session option" where
  "Session_findOne d l t s st =
     (if \<not> castable d l then Inl (CastError l)
      else if \<not> castable d t then Inl (CastError t)
      else if \<not> castable d s then Inl (CastError s)
      else Inr (find (\<lambda>x. session_learnerID x = l \<and> session_teacherID x = t
                          \<and> skillListingID x = s \<and> session_status x = st) (sessions d)))"

definition Rating_findOne :: "db \<Rightarrow> string \<Rightarrow> string \<Rightarrow> string \<Rightarrow> exn + rating_doc option" where
  "Rating_findOne d l t s =
     (if \<not> castable d l then Inl (CastError l)
      else if \<not> castable d t then Inl (CastError t)
      else if \<not> castable d s then Inl (CastError s)
      else Inr (find (\<lambda>x. learnerID x = l \<and> teacherID x = t \<and> listingID x = s) (ratings d)))"

definition Rating_findById :: "db \<Rightarrow> string \<Rightarrow> exn + rating_doc option" where
  "Rating_findById d i =
     (if castable d i then Inr (find (\<lambda>x. rating_id x = i) (ratings d)) else Inl (CastError i))"

definition Rating_find :: "db \<Rightarrow> (rating_doc \<Rightarrow> string) \<Rightarrow> string \<Rightarrow> exn + rating_doc list" where
  "Rating_find d field i =
     (if castable d i then Inr (filter (\<lambda>x. field x = i) (ratings d)) else Inl (CastError i))"

text \<open>\<^verbatim>\<open>doc.save()\<close> on a new document inserts it.\<close>

definition Rating_insert :: "db \<Rightarrow> rating_doc \<Rightarrow> db" where
  "Rating_insert d r = d\<lparr>ratings := ratings d @ [r]\<rparr>"

text \<open>\<^verbatim>\<open>doc.save()\<close> on a loaded document whose \<^verbatim>\<open>rating\<close> was assigned updates the one
  document of that identifier.\<close>

fun setRating :: "string \<Rightarrow> rat \<Rightarrow> rating_doc list \<Rightarrow> rating_doc list" where
  "setRating i v [] = []"
| "setRating i v (x # xs) =
     (if rating_id x = i then x\<lparr>rating := v\<rparr> # xs else x # setRating i v xs)"

definition Rating_update :: "db \<Rightarrow> string \<Rightarrow> rat \<Rightarrow> db" where
  "Rating_update d i v = d\<lparr>ratings := setRating i v (ratings d)\<rparr>"

text \<open>\<^verbatim>\<open>findByIdAndDelete\<close> removes the one document of that identifier.\<close>

fun removeById :: "string \<Rightarrow> rating_doc list \<Rightarrow> rating_doc list" where
  "removeById i [] = []"
| "removeById i (x # xs) = (if rating_id x = i then xs else x # removeById i xs)"

definition Rating_findByIdAndDelete :: "db \<Rightarrow> string \<Rightarrow> db" where
  "Rating_findByIdAndDelete d i = d\<lparr>ratings := removeById i (ratings d)\<rparr>"

text \<open>\<^verbatim>\<open>.sort({ createdAt: -1 })\<close>: newest first, documents of one time in store order.\<close>

definition sortNewestFirst :: "rating_doc list \<Rightarrow> rating_doc list" where
  "sortNewestFirst rs = sort_key (\<lambda>r. - int (createdAt r)) rs"

subsection \<open>Populated documents\<close>

text \<open>
  \<^verbatim>\<open>.populate(path, 'f g')\<close> replaces the identifier at the path by the referenced
  document cut down to its identifier and the selected fields, or by null when the
  referenced document is gone. A field that was not selected is \<open>None\<close>.
\<close>

datatype 'a ref = Unpopulated string | Populated "'a option"

record user_view =
  uv_id :: string
  uv_fullname :: "string option"
  uv_email :: "string option"
  uv_profilePicture :: "string option"

record listing_view =
  lv_id :: string
  lv_title :: "string option"
  lv_description :: "string option"
  lv_fee :: "rat option"
  lv_category :: "string option"

record rating_view =
  rv_id :: string
  rv_learnerID :: "user_view ref"
  rv_teacherID :: "user_view ref"
  rv_listingID :: "listing_view ref"
  rv_rating :: rat
  rv_createdAt :: nat

definition selected :: "string list \<Rightarrow> string \<Rightarrow> 'a \<Rightarrow> 'a option" where
  "selected sel f v = (if f \<in> set sel then Some v else None)"

definition userView :: "string list \<Rightarrow> user \<Rightarrow> user_view" where
  "userView sel u =
     \<lparr>uv_id = user_id u,
      uv_fullname = selected sel ''fullname'' (fullname u),
      uv_email = selected sel ''email'' (email u),
      uv_profilePicture = selected sel ''profilePicture'' (profilePicture u)\<rparr>"

definition listingView :: "string list \<Rightarrow> skillListing \<Rightarrow> listing_view" where
  "listingView sel l =
     \<lparr>lv_id = listing_id l,
      lv_title = selected sel ''title'' (title l),
      lv_description = selected sel ''description'' (description l),
      lv_fee = selected sel ''fee'' (fee l),
      lv_category = selected sel ''category'' (category l)\<rparr>"

definition unpopulated :: "rating_doc \<Rightarrow> rating_view" where
  "unpopulated r =
     \<lparr>rv_id = rating_id r,
      rv_learnerID = Unpopulated (learnerID r),
      rv_teacherID = Unpopulated (teacherID r),
      rv_listingID = Unpopulated (listingID r),
      rv_rating = rating r,
      rv_createdAt = createdAt r\<rparr>"

definition populateUser :: "db \<Rightarrow> string list \<Rightarrow> user_view ref \<Rightarrow> user_view ref" where
  "populateUser d sel x =
     (case x of
        Unpopulated i \<Rightarrow> Populated (map_option (userView sel) (find (\<lambda>u. user_id u = i) (users d)))
      | Populated v \<Rightarrow> Populated v)"

definition populateListing :: "db \<Rightarrow> string list \<Rightarrow> listing_view ref \<Rightarrow> listing_view ref" where
  "populateListing d sel x =
     (case x of
        Unpopulated i \<Rightarrow>
          Populated (map_option (listingView sel) (find (\<lambda>l. listing_id l = i) (listings d)))
      | Populated v \<Rightarrow> Populated v)"

definition populate_learnerID :: "db \<Rightarrow> string list \<Rightarrow> rating_view \<Rightarrow> rating_view" where
  "populate_learnerID d sel v = v\<lparr>rv_learnerID := populateUser d sel (rv_learnerID v)\<rparr>"

definition populate_teacherID :: "db \<Rightarrow> string list \<Rightarrow> rating_view \<Rightarrow> rating_view" where
  "populate_teacherID d sel v = v\<lparr>rv_teacherID := populateUser d sel (rv_teacherID v)\<rparr>"

definition populate_listingID :: "db \<Rightarrow> string list \<Rightarrow> rating_view \<Rightarrow> rating_view" where
  "populate_listingID d sel v = v\<lparr>rv_listingID := populateListing d sel (rv_listingID v)\<rparr>"

subsection \<open>Replies\<close>

record user_summary =
  us_id :: string
  us_fullname :: string
  us_email :: string
  us_role :: "string option"

record recent_rating =
  rr_id :: string
  rr_rating :: rat
  rr_learner :: "string option"
  rr_skill :: "string option"
  rr_createdAt :: nat

record statistics =
  highestRating :: "rat option"
  lowestRating :: "rat option"
  ratingsAbove4 :: nat
  ratingsBelow3 :: nat

record deleted_rating =
  dr_id :: string
  dr_learnerID :: string
  dr_teacherID :: string
  dr_listingID :: string
  dr_rating :: rat
  deletedAt :: nat

text \<open>
  The reply of \<^verbatim>\<open>getAverageRatingsByTeacherId\<close> has two shapes; a key that a shape does
  not have is \<open>None\<close>. Both shapes have the keys \<^verbatim>\<open>averageRating\<close>, which is \<open>None\<close>
  when it is null, \<^verbatim>\<open>totalRatings\<close> and \<^verbatim>\<open>teacher\<close>.
\<close>

record teacher_report =
  tr_averageRating :: "rat option"
  tr_totalRatings :: nat
  tr_ratings :: "rating_view list option"
  tr_teacher :: user_summary
  tr_note :: "string option"
  ratingDistribution :: "(nat \<times> nat) list option"
  uniqueSkillsCount :: "nat option"
  recentRatings :: "recent_rating list option"
  tr_statistics :: "statistics option"

datatype payload =
    NoData
  | ErrorMessage exn
  | CreatedRating "rating_view option"
  | UpdatedRating string rat
  | DeletedRating deleted_rating
  | ListingRatings "rating_view list" nat "rat option" nat "string option"
  | AverageUnavailable nat nat string
  | AverageRating rat nat
  | RatingList "rating_view list"
  | UserRatings "rating_view list" user_summary
  | LearnerRatings "rating_view list" user_summary nat
  | ReceivedRatings "rating_view list" nat
  | TeacherReport teacher_report

record response =
  status :: nat
  message :: string
  success :: bool
  payload :: payload

record outcome =
  reply :: response
  store :: db
  calls :: "store_call list"

definition json :: "nat \<Rightarrow> string \<Rightarrow> bool \<Rightarrow> payload \<Rightarrow> response" where
  "json c m s p = \<lparr>status = c, message = m, success = s, payload = p\<rparr>"

definition finish :: "db \<Rightarrow> store_call list \<Rightarrow> response \<Rightarrow> outcome" where
  "finish d cs r = \<lparr>reply = r, store = d, calls = cs\<rparr>"

text \<open>\<^verbatim>\<open>!x\<close> on a request field that is a string, and on one that is a number.\<close>

definition falsy :: "string option \<Rightarrow> bool" where
  "falsy x = (case x of None \<Rightarrow> True | Some s \<Rightarrow> s = [])"

definition falsyNumber :: "rat option \<Rightarrow> bool" where
  "falsyNumber x = (case x of None \<Rightarrow> True | Some v \<Rightarrow> v = 0)"

subsection \<open>createRating\<close>

record create_body =
  body_learnerID :: "string option"
  body_teacherID :: "string option"
  body_listingID :: "string option"
  body_rating :: "rat option"

definition internalError :: response where
  "internalError = json 500 ''Internal server error'' False NoData"

text \<open>
  The handler checks in the order of the source and stops at the first check that fails.
  After \<^verbatim>\<open>save()\<close> it reads the new document back by \<^verbatim>\<open>newRating._id\<close>, which is an
  identifier of the store already and is not cast.
\<close>

definition createRating :: "db \<Rightarrow> nat \<Rightarrow> string \<Rightarrow> create_body \<Rightarrow> outcome" where
  "createRating d now newId b =
     (case (body_learnerID b, body_teacherID b, body_listingID b, body_rating b) of
        (Some l, Some t, Some s, Some r) \<Rightarrow>
          if l = [] \<or> t = [] \<or> s = [] \<or> r = 0
          then finish d [] (json 400 ''All fields are required'' False NoData)
          else if r < 1 \<or> r > 5
          then finish d [] (json 400 ''Rating must be between 1 and 5'' False NoData)
          else
            (case User_findById d l of
               Inl e \<Rightarrow> finish d [User_findById_call l] internalError
             | Inr None \<Rightarrow>
                 finish d [User_findById_call l] (json 404 ''Learner not found'' False NoData)
             | Inr (Some learner) \<Rightarrow>
            (case User_findById d t of
               Inl e \<Rightarrow> finish d [User_findById_call l, User_findById_call t] internalError
             | Inr None \<Rightarrow>
                 finish d [User_findById_call l, User_findById_call t]
                   (json 404 ''Teacher not found'' False NoData)
             | Inr (Some teacher) \<Rightarrow>
            (case SkillListing_findById d s of
               Inl e \<Rightarrow>
                 finish d [User_findById_call l, User_findById_call t,
                           SkillListing_findById_call s] internalError
             | Inr None \<Rightarrow>
                 finish d [User_findById_call l, User_findById_call t,
                           SkillListing_findById_call s]
                   (json 404 ''Skill listing not found'' False NoData)
             | Inr (Some listing) \<Rightarrow>
            (case Session_findOne d l t s ''completed'' of
               Inl e \<Rightarrow>
                 finish d [User_findById_call l, User_findById_call t,
                           SkillListing_findById_call s, Session_findOne_call l t s]
                   internalError
             | Inr None \<Rightarrow>
                 finish d [User_findById_call l, User_findById_call t,
                           SkillListing_findById_call s, Session_findOne_call l t s]
                   (json 403 ''You can only rate courses you have completed'' False NoData)
             | Inr (Some completedSession) \<Rightarrow>
            (case Rating_findOne d l t s of
               Inl e \<Rightarrow>
                 finish d [User_findById_call l, User_findById_call t,
                           SkillListing_findById_call s, Session_findOne_call l t s,
                           Rating_findOne_call l t s] internalError
             | Inr (Some existingRating) \<Rightarrow>
                 finish d [User_findById_call l, User_findById_call t,
                           SkillListing_findById_call s, Session_findOne_call l t s,
                           Rating_findOne_call l t s]
                   (json 400 ''You have already rated this listing'' False NoData)
             | Inr None \<Rightarrow>
                 (let newRating = \<lparr>rating_id = newId, learnerID = l, teacherID = t,
                                   listingID = s, rating = r, createdAt = now\<rparr>;
                      d' = Rating_insert d newRating;
                      populatedRating =
                        map_option
                          (populate_listingID d' [''title'']
                             \<circ> populate_teacherID d' [''fullname'', ''email'']
                             \<circ> populate_learnerID d' [''fullname'', ''email'']
                             \<circ> unpopulated)
                          (find (\<lambda>x. rating_id x = newId) (ratings d'))
                  in finish d' [User_findById_call l, User_findById_call t,
                                SkillListing_findById_call s, Session_findOne_call l t s,
                                Rating_findOne_call l t s, Rating_save_call newId,
                                Rating_findById_call newId]
                       (json 201 ''Rating created successfully'' True
                          (CreatedRating populatedRating))))))))
      | _ \<Rightarrow> finish d [] (json 400 ''All fields are required'' False NoData))"

subsection \<open>updateRating\<close>

definition updateRating :: "db \<Rightarrow> string option \<Rightarrow> rat option \<Rightarrow> outcome" where
  "updateRating d ratingId newRating =
     (if falsy ratingId
      then finish d [] (json 400 ''Rating ID is required'' False NoData)
      else if falsyNumber newRating \<or> (case newRating of None \<Rightarrow> False | Some r \<Rightarrow> r < 1 \<or> r > 5)
      then finish d [] (json 400 ''Rating must be between 1 and 5'' False NoData)
      else
        (case (ratingId, newRating) of
           (Some i, Some r) \<Rightarrow>
             (case Rating_findById d i of
                Inl e \<Rightarrow> finish d [Rating_findById_call i] internalError
              | Inr None \<Rightarrow>
                  finish d [Rating_findById_call i] (json 404 ''Rating not found'' False NoData)
              | Inr (Some existingRating) \<Rightarrow>
                  finish (Rating_update d i r) [Rating_findById_call i, Rating_save_call i]
                    (json 200 ''Rating updated successfully'' True
                       (UpdatedRating (rating_id existingRating) r)))
         | _ \<Rightarrow> finish d [] (json 400 ''Rating must be between 1 and 5'' False NoData)))"

subsection \<open>deleteRating\<close>

definition internalErrorWith :: "exn \<Rightarrow> response" where
  "internalErrorWith e = json 500 ''Internal server error'' False (ErrorMessage e)"

definition deleteRating :: "db \<Rightarrow> nat \<Rightarrow> string option \<Rightarrow> string \<Rightarrow> outcome" where
  "deleteRating d now ratingId userId =
     (case ratingId of
        None \<Rightarrow> finish d [] (json 400 ''Rating ID is required'' False NoData)
      | Some i \<Rightarrow>
          if i = [] then finish d [] (json 400 ''Rating ID is required'' False NoData)
          else if length i \<noteq> 24
          then finish d [] (json 400 ''Invalid rating ID format'' False NoData)
          else
            (case Rating_findById d i of
               Inl e \<Rightarrow> finish d [Rating_findById_call i] (internalErrorWith e)
             | Inr None \<Rightarrow>
                 finish d [Rating_findById_call i] (json 404 ''Rating not found'' False NoData)
             | Inr (Some r) \<Rightarrow>
                 if learnerID r \<noteq> userId
                 then finish d [Rating_findById_call i]
                        (json 403 ''You can only delete your own ratings'' False NoData)
                 else finish (Rating_findByIdAndDelete d i)
                        [Rating_findById_call i, Rating_findByIdAndDelete_call i]
                        (json 200 ''Rating deleted successfully'' True
                           (DeletedRating
                              \<lparr>dr_id = rating_id r, dr_learnerID = learnerID r,
                               dr_teacherID = teacherID r, dr_listingID = listingID r,
                               dr_rating = rating r, deletedAt = now\<rparr>))))"

subsection \<open>Averages\<close>

text \<open>
  \<^verbatim>\<open>parseFloat(x.toFixed(1))\<close>. \<^verbatim>\<open>toFixed\<close> works on the absolute value and puts the sign
  back; from \<open>10\<^sup>2\<^sup>1\<close> on it prints the number as it is; below, it takes the integer \<open>n\<close>
  for which \<open>n / 10\<close> is closest to the number, the larger one of two.
\<close>

definition toFixed1 :: "rat \<Rightarrow> rat" where
  "toFixed1 x =
     (if \<bar>x\<bar> \<ge> 10 ^ 21 then x
      else sgn x * (of_int \<lfloor>10 * \<bar>x\<bar> + 1 / 2\<rfloor> / 10))"

text \<open>\<^verbatim>\<open>ratings.reduce((sum, rating) => sum + rating.rating, 0)\<close>\<close>

definition totalOf :: "rating_view list \<Rightarrow> rat" where
  "totalOf rs = foldl (\<lambda>sum r. sum + rv_rating r) 0 rs"

definition averageOf :: "rating_view list \<Rightarrow> rat" where
  "averageOf rs = toFixed1 (totalOf rs / of_nat (length rs))"

text \<open>\<^verbatim>\<open>Math.max(...xs)\<close> and \<^verbatim>\<open>Math.min(...xs)\<close>; \<open>None\<close> is the infinity that JavaScript
  returns for no argument.\<close>

definition Math_max :: "rat list \<Rightarrow> rat option" where
  "Math_max xs = (case xs of [] \<Rightarrow> None | x # ys \<Rightarrow> Some (fold max ys x))"

definition Math_min :: "rat list \<Rightarrow> rat option" where
  "Math_min xs = (case xs of [] \<Rightarrow> None | x # ys \<Rightarrow> Some (fold min ys x))"

subsection \<open>getRatingsByListing and getAverageRating\<close>

definition getRatingsByListing :: "db \<Rightarrow> string option \<Rightarrow> outcome" where
  "getRatingsByListing d listingId =
     (case listingId of
        None \<Rightarrow> finish d [] (json 400 ''Listing ID is required'' False NoData)
      | Some s \<Rightarrow>
          if s = [] then finish d [] (json 400 ''Listing ID is required'' False NoData)
          else
            (case Rating_find d listingID s of
               Inl e \<Rightarrow> finish d [Rating_find_listing_call s] internalError
             | Inr found \<Rightarrow>
                 (let rs = map (populate_listingID d [''title'']
                                  \<circ> populate_teacherID d [''fullname'', ''email'']
                                  \<circ> populate_learnerID d [''fullname'', ''email'']
                                  \<circ> unpopulated)
                             (sortNewestFirst found);
                      averageRating = (if length rs \<ge> 5 then Some (averageOf rs) else None)
                  in finish d [Rating_find_listing_call s]
                       (json 200 ''Ratings retrieved successfully'' True
                          (ListingRatings rs (length rs) averageRating 5
                             (if length rs < 5
                              then Some ''At least 5 ratings are required to show average rating''
                              else None))))))"

definition getAverageRating :: "db \<Rightarrow> string option \<Rightarrow> outcome" where
  "getAverageRating d listingId =
     (case listingId of
        None \<Rightarrow> finish d [] (json 400 ''Listing ID is required'' False NoData)
      | Some s \<Rightarrow>
          if s = [] then finish d [] (json 400 ''Listing ID is required'' False NoData)
          else
            (case Rating_find d listingID s of
               Inl e \<Rightarrow> finish d [Rating_find_listing_call s] internalError
             | Inr found \<Rightarrow>
                 (let rs = map unpopulated found
                  in if length rs < 5
                     then finish d [Rating_find_listing_call s]
                            (json 200 ''Average rating not available yet'' True
                               (AverageUnavailable (length rs) 5
                                  ''At least 5 ratings are required to show average rating''))
                     else finish d [Rating_find_listing_call s]
                            (json 200 ''Average rating retrieved successfully'' True
                               (AverageRating (averageOf rs) (length rs))))))"

subsection \<open>The listings of ratings by author and by teacher\<close>

definition getMyRatings :: "db \<Rightarrow> string \<Rightarrow> outcome" where
  "getMyRatings d userId =
     (case Rating_find d learnerID userId of
        Inl e \<Rightarrow> finish d [Rating_find_learner_call userId] internalError
      | Inr found \<Rightarrow>
          finish d [Rating_find_learner_call userId]
            (json 200 ''User ratings retrieved successfully'' True
               (RatingList
                  (map (populate_listingID d [''title'', ''description'', ''fee'']
                          \<circ> populate_teacherID d [''fullname'', ''email'']
                          \<circ> unpopulated)
                     (sortNewestFirst found)))))"

definition getRatingsByUserId :: "db \<Rightarrow> string option \<Rightarrow> outcome" where
  "getRatingsByUserId d userId =
     (case userId of
        None \<Rightarrow> finish d [] (json 400 ''User ID is required'' False NoData)
      | Some u \<Rightarrow>
          if u = [] then finish d [] (json 400 ''User ID is required'' False NoData)
          else if length u \<noteq> 24
          then finish d [] (json 400 ''Invalid user ID format'' False NoData)
          else
            (case User_findById d u of
               Inl e \<Rightarrow> finish d [User_findById_call u] (internalErrorWith e)
             | Inr None \<Rightarrow>
                 finish d [User_findById_call u] (json 404 ''User not found'' False NoData)
             | Inr (Some user) \<Rightarrow>
                 (case Rating_find d learnerID u of
                    Inl e \<Rightarrow>
                      finish d [User_findById_call u, Rating_find_learner_call u]
                        (internalErrorWith e)
                  | Inr found \<Rightarrow>
                      finish d [User_findById_call u, Rating_find_learner_call u]
                        (json 200 ''User ratings retrieved successfully'' True
                           (UserRatings
                              (map (populate_listingID d [''title'', ''description'', ''fee'']
                                      \<circ> populate_teacherID d [''fullname'', ''email'']
                                      \<circ> unpopulated)
                                 (sortNewestFirst found))
                              \<lparr>us_id = user_id user, us_fullname = fullname user,
                               us_email = email user, us_role = None\<rparr>)))))"

text \<open>In \<^verbatim>\<open>getRatingsByLearnerId\<close> the check of the identifier's length is commented out.\<close>

definition getRatingsByLearnerId :: "db \<Rightarrow> string option \<Rightarrow> outcome" where
  "getRatingsByLearnerId d learnerId =
     (case learnerId of
        None \<Rightarrow> finish d [] (json 400 ''Learner ID is required'' False NoData)
      | Some l \<Rightarrow>
          if l = [] then finish d [] (json 400 ''Learner ID is required'' False NoData)
          else
            (case User_findOne d l of
               Inl e \<Rightarrow> finish d [User_findOne_call l] (internalErrorWith e)
             | Inr None \<Rightarrow>
                 finish d [User_findOne_call l] (json 404 ''Learner not found'' False NoData)
             | Inr (Some learner) \<Rightarrow>
                 (case Rating_find d learnerID l of
                    Inl e \<Rightarrow>
                      finish d [User_findOne_call l, Rating_find_learner_call l]
                        (internalErrorWith e)
                  | Inr found \<Rightarrow>
                      (let rs = map (populate_listingID d
                                       [''title'', ''description'', ''fee'', ''category'']
                                      \<circ> populate_teacherID d
                                          [''fullname'', ''email'', ''profilePicture'']
                                      \<circ> unpopulated)
                                  (sortNewestFirst found)
                       in finish d [User_findOne_call l, Rating_find_learner_call l]
                            (json 200
                               (''Ratings given by '' @ fullname learner
                                  @ '' retrieved successfully'') True
                               (LearnerRatings rs
                                  \<lparr>us_id = user_id learner, us_fullname = fullname learner,
                                   us_email = email learner, us_role = None\<rparr>
                                  (length rs)))))))"

definition getMyReceivedRatings :: "db \<Rightarrow> string \<Rightarrow> outcome" where
  "getMyReceivedRatings d userId =
     (case Rating_find d teacherID userId of
        Inl e \<Rightarrow> finish d [Rating_find_teacher_call userId] (internalErrorWith e)
      | Inr found \<Rightarrow>
          (let rs = map (populate_listingID d
                           [''title'', ''description'', ''fee'', ''category'']
                          \<circ> populate_learnerID d [''fullname'', ''email'', ''profilePicture'']
                          \<circ> unpopulated)
                      (sortNewestFirst found)
           in finish d [Rating_find_teacher_call userId]
                (json 200 ''Ratings you received as a teacher retrieved successfully'' True
                   (ReceivedRatings rs (length rs)))))"

subsection \<open>getAverageRatingsByTeacherId\<close>

definition countRating :: "rat \<Rightarrow> rating_view list \<Rightarrow> nat" where
  "countRating v rs = length (filter (\<lambda>r. rv_rating r = v) rs)"

definition listingKey :: "rating_view \<Rightarrow> string option" where
  "listingKey r = (case rv_listingID r of Populated (Some l) \<Rightarrow> Some (lv_id l) | _ \<Rightarrow> None)"

definition recent :: "rating_view \<Rightarrow> recent_rating" where
  "recent r =
     \<lparr>rr_id = rv_id r, rr_rating = rv_rating r,
      rr_learner = (case rv_learnerID r of Populated (Some u) \<Rightarrow> uv_fullname u | _ \<Rightarrow> None),
      rr_skill = (case rv_listingID r of Populated (Some l) \<Rightarrow> lv_title l | _ \<Rightarrow> None),
      rr_createdAt = rv_createdAt r\<rparr>"

definition teacherReport :: "user \<Rightarrow> rating_view list \<Rightarrow> response" where
  "teacherReport teacher rs =
     (if length rs = 0
      then json 200 (fullname teacher @ '' has not received any ratings yet'') True
             (TeacherReport
                \<lparr>tr_averageRating = None, tr_totalRatings = 0, tr_ratings = Some [],
                 tr_teacher = \<lparr>us_id = user_id teacher, us_fullname = fullname teacher,
                               us_email = email teacher, us_role = None\<rparr>,
                 tr_note = Some (''This teacher hasn'' @ [CHR 0x27]
                                   @ ''t received any ratings yet''),
                 ratingDistribution = None, uniqueSkillsCount = None,
                 recentRatings = None, tr_statistics = None\<rparr>)
      else json 200 (''Average ratings for '' @ fullname teacher @ '' retrieved successfully'')
             True
             (TeacherReport
                \<lparr>tr_averageRating = Some (averageOf rs), tr_totalRatings = length rs,
                 tr_ratings = None,
                 tr_teacher = \<lparr>us_id = user_id teacher, us_fullname = fullname teacher,
                               us_email = email teacher, us_role = Some (role teacher)\<rparr>,
                 tr_note = None,
                 ratingDistribution =
                   Some [(1, countRating 1 rs), (2, countRating 2 rs), (3, countRating 3 rs),
                         (4, countRating 4 rs), (5, countRating 5 rs)],
                 uniqueSkillsCount = Some (length (remdups (map listingKey rs))),
                 recentRatings = Some (map recent (take 5 rs)),
                 tr_statistics =
                   Some \<lparr>highestRating = Math_max (map rv_rating rs),
                         lowestRating = Math_min (map rv_rating rs),
                         ratingsAbove4 = length (filter (\<lambda>r. rv_rating r \<ge> 4) rs),
                         ratingsBelow3 = length (filter (\<lambda>r. rv_rating r \<le> 2) rs)\<rparr>\<rparr>))"

definition getAverageRatingsByTeacherId :: "db \<Rightarrow> string option \<Rightarrow> outcome" where
  "getAverageRatingsByTeacherId d teacherId =
     (case teacherId of
        None \<Rightarrow> finish d [] (json 400 ''Teacher ID is required'' False NoData)
      | Some t \<Rightarrow>
          if t = [] then finish d [] (json 400 ''Teacher ID is required'' False NoData)
          else if length t \<noteq> 24
          then finish d [] (json 400 ''Invalid teacher ID format'' False NoData)
          else
            (case User_findById d t of
               Inl e \<Rightarrow> finish d [User_findById_call t] (internalErrorWith e)
             | Inr None \<Rightarrow>
                 finish d [User_findById_call t] (json 404 ''Teacher not found'' False NoData)
             | Inr (Some teacher) \<Rightarrow>
                 if role teacher \<noteq> ''teacher''
                 then finish d [User_findById_call t]
                        (json 400 ''This user is not a teacher'' False NoData)
                 else
                   (case Rating_find d teacherID t of
                      Inl e \<Rightarrow>
                        finish d [User_findById_call t, Rating_find_teacher_call t]
                          (internalErrorWith e)
                    | Inr found \<Rightarrow>
                        finish d [User_findById_call t, Rating_find_teacher_call t]
                          (teacherReport teacher
                             (map (populate_listingID d [''title'', ''description'', ''fee'']
                                     \<circ> populate_learnerID d [''fullname'', ''email'']
                                     \<circ> unpopulated)
                                (sortNewestFirst found))))))"

subsection \<open>The error kinds of the specification\<close>

text \<open>
  The specification names the failures by kind, not by status. The handlers answer 400
  to a missing or malformed input and to a duplicate rating alike; the duplicate is told
  apart by its message.
\<close>

datatype error_kind =
  ValidationError | NotFoundError | ForbiddenError | ConflictError | InternalError

definition errorKind :: "response \<Rightarrow> error_kind option" where
  "errorKind r =
     (if success r then None
      else if status r = 400 \<and> message r = ''You have already rated this listing''
      then Some ConflictError
      else if status r = 400 then Some ValidationError
      else if status r = 403 then Some ForbiddenError
      else if status r = 404 then Some NotFoundError
      else Some InternalError)"

subsection \<open>Properties of the store that the claims speak of\<close>

text \<open>Every stored score lies between 1 and 5.\<close>

definition scoresInRange :: "db \<Rightarrow> bool" where
  "scoresInRange d = list_all (\<lambda>x. 1 \<le> rating x \<and> rating x \<le> 5) (ratings d)"



definition completedSessionExists :: "db \<Rightarrow> string \<Rightarrow> string \<Rightarrow> string \<Rightarrow> bool" where
  "completedSessionExists d l t s =
     (\<exists>x \<in> set (sessions d). session_learnerID x = l \<and> session_teacherID x = t
        \<and> skillListingID x = s \<and> session_status x = ''completed'')"

definition ratingExists :: "db \<Rightarrow> string \<Rightarrow> string \<Rightarrow> string \<Rightarrow> bool" where
  "ratingExists d l t s =
     (\<exists>x \<in> set (ratings d). learnerID x = l \<and> teacherID x = t \<and> listingID x = s)"

subsection \<open>An example store\<close>

text \<open>The identifier syntax of the example store: 24 hexadecimal digits.\<close>

definition hex24 :: "string \<Rightarrow> bool" where
  "hex24 s = (length s = 24 \<and> list_all (\<lambda>c. c \<in> set ''0123456789abcdef'') s)"

definition alice :: string where
  "alice = ''aaaaaaaaaaaaaaaaaaaaaaaa''"

definition bob :: string where
  "bob = ''bbbbbbbbbbbbbbbbbbbbbbbb''"

definition dana :: string where
  "dana = ''dddddddddddddddddddddddd''"

definition guitar :: string where
  "guitar = ''cccccccccccccccccccccccc''"

definition aliceUser :: user where
  "aliceUser =
     \<lparr>user_id = alice, fullname = ''Alice'', email = ''alice@swapit.test'',
      role = ''learner'', profilePicture = []\<rparr>"

definition bobUser :: user where
  "bobUser =
     \<lparr>user_id = bob, fullname = ''Bob'', email = ''bob@swapit.test'',
      role = ''teacher'', profilePicture = []\<rparr>"

definition danaUser :: user where
  "danaUser =
     \<lparr>user_id = dana, fullname = ''Dana'', email = ''dana@swapit.test'',
      role = ''teacher'', profilePicture = []\<rparr>"

definition guitarListing :: skillListing where
  "guitarListing =
     \<lparr>listing_id = guitar, title = ''Guitar'', description = ''Chords'', fee = 10,
      category = ''music''\<rparr>"

definition exampleRating :: "string \<Rightarrow> string \<Rightarrow> rat \<Rightarrow> nat \<Rightarrow> rating_doc" where
  "exampleRating i l v t =
     \<lparr>rating_id = i, learnerID = l, teacherID = bob, listingID = guitar,
      rating = v, createdAt = t\<rparr>"

text \<open>
  Alice has completed Bob's guitar course and has not rated it; five other learners have
  rated it 5, 5, 4, 3 and 5; Dana teaches and has no rating.
\<close>

definition exampleStore :: db where
  "exampleStore =
     \<lparr>castable = hex24,
      users = [aliceUser, bobUser, danaUser],
      listings = [guitarListing],
      sessions =
        [\<lparr>session_learnerID = alice, session_teacherID = bob, skillListingID = guitar,
          session_status = ''completed''\<rparr>],
      ratings =
        [exampleRating ''000000000000000000000001'' ''111111111111111111111111'' 5 1,
         exampleRating ''000000000000000000000002'' ''222222222222222222222222'' 5 2,
         exampleRating ''000000000000000000000003'' ''333333333333333333333333'' 4 3,
         exampleRating ''000000000000000000000004'' ''444444444444444444444444'' 3 4,
         exampleRating ''000000000000000000000005'' ''555555555555555555555555'' 5 5]\<rparr>"

text \<open>The request of Alice to rate Bob's guitar course with the score \<open>v\<close>.\<close>

definition aliceRates :: "rat \<Rightarrow> create_body" where
  "aliceRates v =
     \<lparr>body_learnerID = Some alice, body_teacherID = Some bob, body_listingID = Some guitar,
      body_rating = Some v\<rparr>"

text \<open>A store in which Alice's rating is there and her session is not.\<close>

definition storeWithoutSession :: db where
  "storeWithoutSession =
     exampleStore\<lparr>sessions := [],
                   ratings := [exampleRating ''000000000000000000000006'' alice 4 6]\<rparr>"

subsection \<open>Reading a reply\<close>

text \<open>The scores of a listing and of a teacher, as the store holds them.\<close>

definition scoresOfListing :: "db \<Rightarrow> string \<Rightarrow> rat list" where
  "scoresOfListing d s = map rating (filter (\<lambda>x. listingID x = s) (ratings d))"

definition scoresOfTeacher :: "db \<Rightarrow> string \<Rightarrow> rat list" where
  "scoresOfTeacher d t = map rating (filter (\<lambda>x. teacherID x = t) (ratings d))"


definition reportOf :: "response \<Rightarrow> teacher_report option" where
  "reportOf r = (case payload r of TeacherReport t \<Rightarrow> Some t | _ \<Rightarrow> None)"

subsection \<open>The gates of createRating\<close>

text \<open>
  The failure gates of \<open>createRating\<close> as the specification lists them, each stated on
  the contents of the store: a gate passes (\<open>None\<close>) or fails with a reply. The gate of a
  referenced document fails as well when the identifier does not cast, with the reply of
  the handler's \<^verbatim>\<open>catch\<close>.
\<close>

definition given :: "string option \<Rightarrow> string" where
  "given x = (case x of None \<Rightarrow> [] | Some s \<Rightarrow> s)"

definition givenNumber :: "rat option \<Rightarrow> rat" where
  "givenNumber x = (case x of None \<Rightarrow> 0 | Some v \<Rightarrow> v)"

definition userKnown :: "db \<Rightarrow> string \<Rightarrow> bool" where
  "userKnown d i = (\<exists>u \<in> set (users d). user_id u = i)"

definition listingKnown :: "db \<Rightarrow> string \<Rightarrow> bool" where
  "listingKnown d i = (\<exists>l \<in> set (listings d). listing_id l = i)"

definition gateFields :: "create_body \<Rightarrow> response option" where
  "gateFields b =
     (if falsy (body_learnerID b) \<or> falsy (body_teacherID b) \<or> falsy (body_listingID b)
         \<or> falsyNumber (body_rating b)
      then Some (json 400 ''All fields are required'' False NoData) else None)"

definition gateScore :: "create_body \<Rightarrow> response option" where
  "gateScore b =
     (if givenNumber (body_rating b) < 1 \<or> givenNumber (body_rating b) > 5
      then Some (json 400 ''Rating must be between 1 and 5'' False NoData) else None)"

definition gateExists :: "bool \<Rightarrow> bool \<Rightarrow> string \<Rightarrow> response option" where
  "gateExists casts known notFound =
     (if \<not> casts then Some internalError
      else if \<not> known then Some (json 404 notFound False NoData)
      else None)"

definition gateSession :: "db \<Rightarrow> string \<Rightarrow> string \<Rightarrow> string \<Rightarrow> response option" where
  "gateSession d l t s =
     (if completedSessionExists d l t s then None
      else Some (json 403 ''You can only rate courses you have completed'' False NoData))"

definition gateDuplicate :: "db \<Rightarrow> string \<Rightarrow> string \<Rightarrow> string \<Rightarrow> response option" where
  "gateDuplicate d l t s =
     (if ratingExists d l t s
      then Some (json 400 ''You have already rated this listing'' False NoData)
      else None)"

definition gates :: "db \<Rightarrow> create_body \<Rightarrow> response option list" where
  "gates d b =
     (let l = given (body_learnerID b); t = given (body_teacherID b);
          s = given (body_listingID b)
      in [gateFields b,
          gateScore b,
          gateExists (castable d l) (userKnown d l) ''Learner not found'',
          gateExists (castable d t) (userKnown d t) ''Teacher not found'',
          gateExists (castable d s) (listingKnown d s) ''Skill listing not found'',
          gateSession d l t s,
          gateDuplicate d l t s])"

fun firstFailure :: "response option list \<Rightarrow> response option" where
  "firstFailure [] = None"
| "firstFailure (None # gs) = firstFailure gs"
| "firstFailure (Some e # gs) = Some e"

section \<open>Properties\<close>

subsection \<open>Replies and outcomes\<close>

lemma errorKind_json [simp]:
  "errorKind (json c m s p) =
     (if s then None
      else if c = 400 \<and> m = ''You have already rated this listing'' then Some ConflictError
      else if c = 400 then Some ValidationError
      else if c = 403 then Some ForbiddenError
      else if c = 404 then Some NotFoundError
      else Some InternalError)"
  by (simp add: errorKind_def json_def)

lemma json_sel [simp]:
  "status (json c m s p) = c" "message (json c m s p) = m"
  "success (json c m s p) = s" "payload (json c m s p) = p"
  by (simp_all add: json_def)

lemma outcome_finish [simp]:
  "reply (finish d cs r) = r" "store (finish d cs r) = d" "calls (finish d cs r) = cs"
  by (simp_all add: finish_def)

lemma example_ids [simp]:
  "hex24 alice" "hex24 bob" "hex24 dana" "hex24 guitar"
  "alice \<noteq> bob" "alice \<noteq> dana" "bob \<noteq> dana" "bob \<noteq> alice" "dana \<noteq> alice" "dana \<noteq> bob"
  "alice \<noteq> []" "bob \<noteq> []" "dana \<noteq> []" "guitar \<noteq> []"
  "length alice = 24" "length bob = 24" "length dana = 24" "length guitar = 24"
  by (simp_all add: hex24_def alice_def bob_def dana_def guitar_def)

lemma example_castable [simp]:
  "castable exampleStore = hex24" "castable storeWithoutSession = hex24"
  by (simp_all add: exampleStore_def storeWithoutSession_def)

lemma example_users [simp]:
  "User_findById exampleStore alice = Inr (Some aliceUser)"
  "User_findById exampleStore bob = Inr (Some bobUser)"
  "User_findById exampleStore dana = Inr (Some danaUser)"
  "User_findById storeWithoutSession alice = Inr (Some aliceUser)"
  "User_findById storeWithoutSession bob = Inr (Some bobUser)"
  "role bobUser = ''teacher''" "role danaUser = ''teacher''"
  by (simp_all add: User_findById_def exampleStore_def storeWithoutSession_def
        aliceUser_def bobUser_def danaUser_def)

lemma example_listing [simp]:
  "SkillListing_findById exampleStore guitar = Inr (Some guitarListing)"
  "SkillListing_findById storeWithoutSession guitar = Inr (Some guitarListing)"
  by (simp_all add: SkillListing_findById_def exampleStore_def storeWithoutSession_def
        guitarListing_def)

lemma example_scores [simp]:
  "scoresOfListing exampleStore guitar = [5, 5, 4, 3, 5]"
  "scoresOfListing storeWithoutSession guitar = [4]"
  "scoresOfTeacher exampleStore bob = [5, 5, 4, 3, 5]"
  "scoresOfTeacher exampleStore dana = []"
  by (simp_all add: scoresOfListing_def scoresOfTeacher_def exampleStore_def
        storeWithoutSession_def exampleRating_def)

subsection \<open>Scores outside the range\<close>



subsection \<open>Sums, sorting and rounding\<close>




lemma rv_rating_simps [simp]:
  "rv_rating (unpopulated r) = rating r"
  "rv_rating (populate_learnerID d sel v) = rv_rating v"
  "rv_rating (populate_teacherID d sel v) = rv_rating v"
  "rv_rating (populate_listingID d sel v) = rv_rating v"
  by (simp_all add: unpopulated_def populate_learnerID_def populate_teacherID_def
        populate_listingID_def)

lemma mset_sortNewestFirst [simp]: "mset (sortNewestFirst rs) = mset rs"
  by (simp add: sortNewestFirst_def)

lemma length_sortNewestFirst [simp]: "length (sortNewestFirst rs) = length rs"
  by (simp add: sortNewestFirst_def)



subsection \<open>The average of a listing\<close>



subsection \<open>The report on a teacher\<close>

lemma floor_rat_numeral [simp]:
  "\<lfloor>numeral a / numeral b :: rat\<rfloor> = numeral a div numeral b"
  by (metis floor_divide_of_int_eq of_int_numeral)











lemma User_findById_castable: "User_findById d t = Inr x \<Longrightarrow> castable d t"
  by (simp add: User_findById_def split: if_splits)

lemma teacher_reply:
  assumes "User_findById d t = Inr (Some u)" and "role u = ''teacher''" and "length t = 24"
  shows "reply (getAverageRatingsByTeacherId d (Some t))
           = teacherReport u
               (map (populate_listingID d [''title'', ''description'', ''fee'']
                       \<circ> populate_learnerID d [''fullname'', ''email'']
                       \<circ> unpopulated)
                  (sortNewestFirst (filter (\<lambda>x. teacherID x = t) (ratings d))))"
proof -
  have c: "castable d t" using assms(1) by (rule User_findById_castable)
  have n: "t \<noteq> []" using assms(3) by auto
  show ?thesis
    using assms c n by (simp add: getAverageRatingsByTeacherId_def Rating_find_def)
qed



subsection \<open>A teacher without ratings\<close>

text \<open>
  Claim C7, as the code has it. For a teacher without ratings
  \<open>getAverageRatingsByTeacherId\<close> succeeds with the status 200; the reply has the total 0,
  the average null and an empty list of ratings. It has no score distribution, no
  statistics, no count of skills and no recent ratings: these keys are absent from it.
\<close>

theorem teacher_without_ratings:
  assumes "User_findById d t = Inr (Some u)" and "role u = ''teacher''" and "length t = 24"
      and "scoresOfTeacher d t = []"
  shows "status (reply (getAverageRatingsByTeacherId d (Some t))) = 200
       \<and> errorKind (reply (getAverageRatingsByTeacherId d (Some t))) = None
       \<and> reportOf (reply (getAverageRatingsByTeacherId d (Some t)))
           = Some \<lparr>tr_averageRating = None, tr_totalRatings = 0, tr_ratings = Some [],
                   tr_teacher = \<lparr>us_id = user_id u, us_fullname = fullname u,
                                 us_email = email u, us_role = None\<rparr>,
                   tr_note = Some (''This teacher hasn'' @ [CHR 0x27]
                                     @ ''t received any ratings yet''),
                   ratingDistribution = None, uniqueSkillsCount = None,
                   recentRatings = None, tr_statistics = None\<rparr>"
proof -
  have "filter (\<lambda>x. teacherID x = t) (ratings d) = []"
    using assms(4) by (simp add: scoresOfTeacher_def)
  then have "reply (getAverageRatingsByTeacherId d (Some t)) = teacherReport u []"
    using teacher_reply[OF assms(1-3)] by (simp add: sortNewestFirst_def)
  then show ?thesis
    by (simp add: teacherReport_def reportOf_def errorKind_def)
qed

theorem teacher_without_ratings_witness:
  "User_findById exampleStore dana = Inr (Some danaUser) \<and> role danaUser = ''teacher''
   \<and> length dana = 24 \<and> scoresOfTeacher exampleStore dana = []
   \<and> status (reply (getAverageRatingsByTeacherId exampleStore (Some dana))) = 200
   \<and> map_option tr_totalRatings
        (reportOf (reply (getAverageRatingsByTeacherId exampleStore (Some dana)))) = Some 0
   \<and> map_option tr_averageRating
        (reportOf (reply (getAverageRatingsByTeacherId exampleStore (Some dana)))) = Some None
   \<and> map_option tr_ratings
        (reportOf (reply (getAverageRatingsByTeacherId exampleStore (Some dana))))
       = Some (Some [])"
  using teacher_without_ratings [of exampleStore dana danaUser]
  by simp

text \<open>
  The claim as stated, that the reply carries an empty score distribution, fails: the
  reply for Dana, who has no rating, has no distribution at all.
\<close>

theorem no_distribution_without_ratings_counterexample:
  "map_option ratingDistribution
     (reportOf (reply (getAverageRatingsByTeacherId exampleStore (Some dana)))) = Some None"
  by (simp add: getAverageRatingsByTeacherId_def Rating_find_def exampleStore_def
        exampleRating_def teacherReport_def reportOf_def sortNewestFirst_def
        User_findById_def danaUser_def aliceUser_def bobUser_def)

subsection \<open>The gates of createRating, in order\<close>

lemma find_None_set: "find P xs = None \<longleftrightarrow> (\<forall>x \<in> set xs. \<not> P x)"
  by (induction xs) auto

lemma find_Some_set: "find P xs = Some x \<Longrightarrow> x \<in> set xs \<and> P x"
  by (induction xs) (auto split: if_splits)

lemma User_findById_results:
  "User_findById d i = Inl e \<Longrightarrow> \<not> castable d i"
  "User_findById d i = Inr None \<Longrightarrow> castable d i \<and> \<not> userKnown d i"
  "User_findById d i = Inr (Some u) \<Longrightarrow> castable d i \<and> userKnown d i"
  by (auto simp: User_findById_def userKnown_def find_None_set split: if_splits
           dest: find_Some_set)

lemma SkillListing_findById_results:
  "SkillListing_findById d i = Inl e \<Longrightarrow> \<not> castable d i"
  "SkillListing_findById d i = Inr None \<Longrightarrow> castable d i \<and> \<not> listingKnown d i"
  "SkillListing_findById d i = Inr (Some u) \<Longrightarrow> castable d i \<and> listingKnown d i"
  by (auto simp: SkillListing_findById_def listingKnown_def find_None_set split: if_splits
           dest: find_Some_set)

lemma Session_findOne_results:
  "Session_findOne d l t s ''completed'' = Inl e
     \<Longrightarrow> \<not> (castable d l \<and> castable d t \<and> castable d s)"
  "Session_findOne d l t s ''completed'' = Inr None \<Longrightarrow> \<not> completedSessionExists d l t s"
  "Session_findOne d l t s ''completed'' = Inr (Some x) \<Longrightarrow> completedSessionExists d l t s"
  by (auto simp: Session_findOne_def completedSessionExists_def find_None_set
           split: if_splits dest: find_Some_set)

lemma Rating_findOne_results:
  "Rating_findOne d l t s = Inl e \<Longrightarrow> \<not> (castable d l \<and> castable d t \<and> castable d s)"
  "Rating_findOne d l t s = Inr None \<Longrightarrow> \<not> ratingExists d l t s"
  "Rating_findOne d l t s = Inr (Some x) \<Longrightarrow> ratingExists d l t s"
  by (auto simp: Rating_findOne_def ratingExists_def find_None_set
           split: if_splits dest: find_Some_set)


lemma User_findById_cases:
  obtains (raise) "\<not> castable d i" "User_findById d i = Inl (CastError i)"
  | (missing) "castable d i" "\<not> userKnown d i" "User_findById d i = Inr None"
  | (found) u where "castable d i" "userKnown d i" "User_findById d i = Inr (Some u)"
proof (cases "User_findById d i")
  case (Inl e)
  then show ?thesis using raise by (auto simp: User_findById_def split: if_splits)
next
  case (Inr x)
  then show ?thesis
    using missing found User_findById_results(2,3)[of d i] by (cases x) auto
qed

lemma SkillListing_findById_cases:
  obtains (raise) "\<not> castable d i" "SkillListing_findById d i = Inl (CastError i)"
  | (missing) "castable d i" "\<not> listingKnown d i" "SkillListing_findById d i = Inr None"
  | (found) u where "castable d i" "listingKnown d i"
      "SkillListing_findById d i = Inr (Some u)"
proof (cases "SkillListing_findById d i")
  case (Inl e)
  then show ?thesis using raise by (auto simp: SkillListing_findById_def split: if_splits)
next
  case (Inr x)
  then show ?thesis
    using missing found SkillListing_findById_results(2,3)[of d i] by (cases x) auto
qed

lemma Session_findOne_cases:
  assumes "castable d l" "castable d t" "castable d s"
  obtains (missing) "\<not> completedSessionExists d l t s"
      "Session_findOne d l t s ''completed'' = Inr None"
  | (found) x where "completedSessionExists d l t s"
      "Session_findOne d l t s ''completed'' = Inr (Some x)"
proof (cases "Session_findOne d l t s ''completed''")
  case (Inl e)
  then show ?thesis using assms Session_findOne_results(1)[of d l t s e] by simp
next
  case (Inr x)
  then show ?thesis
    using missing found Session_findOne_results(2,3)[of d l t s] by (cases x) auto
qed

lemma Rating_findOne_cases:
  assumes "castable d l" "castable d t" "castable d s"
  obtains (missing) "\<not> ratingExists d l t s" "Rating_findOne d l t s = Inr None"
  | (found) x where "ratingExists d l t s" "Rating_findOne d l t s = Inr (Some x)"
proof (cases "Rating_findOne d l t s")
  case (Inl e)
  then show ?thesis using assms Rating_findOne_results(1)[of d l t s e] by simp
next
  case (Inr x)
  then show ?thesis
    using missing found Rating_findOne_results(2,3)[of d l t s] by (cases x) auto
qed

lemmas gate_defs =
  gates_def gateFields_def gateScore_def gateExists_def gateSession_def gateDuplicate_def
  given_def givenNumber_def falsy_def falsyNumber_def Let_def

lemma createRating_by_gates:
  "(\<forall>e. firstFailure (gates d b) = Some e \<longrightarrow>
        reply (createRating d now newId b) = e \<and> store (createRating d now newId b) = d)
   \<and> (firstFailure (gates d b) = None \<longrightarrow>
        status (reply (createRating d now newId b)) = 201
        \<and> success (reply (createRating d now newId b))
        \<and> store (createRating d now newId b)
            = Rating_insert d
                \<lparr>rating_id = newId, learnerID = given (body_learnerID b),
                 teacherID = given (body_teacherID b),
                 listingID = given (body_listingID b),
                 rating = givenNumber (body_rating b), createdAt = now\<rparr>)"
proof (cases "falsy (body_learnerID b) \<or> falsy (body_teacherID b)
                \<or> falsy (body_listingID b) \<or> falsyNumber (body_rating b)")
  case True
  then have "firstFailure (gates d b) = Some (json 400 ''All fields are required'' False NoData)"
    by (simp add: gates_def gateFields_def Let_def)
  moreover from True
  have "createRating d now newId b
          = finish d [] (json 400 ''All fields are required'' False NoData)"
    by (auto simp: createRating_def falsy_def falsyNumber_def split: option.splits)
  ultimately show ?thesis by simp
next
  case False
  then obtain l t s r where b:
    "body_learnerID b = Some l" "body_teacherID b = Some t" "body_listingID b = Some s"
    "body_rating b = Some r" "l \<noteq> []" "t \<noteq> []" "s \<noteq> []" "r \<noteq> 0"
    by (auto simp: falsy_def falsyNumber_def split: option.splits)
  show ?thesis
  proof (cases "r < 1 \<or> r > 5")
    case True
    with b show ?thesis by (simp add: createRating_def gate_defs)
  next
    case range: False
    show ?thesis
    proof (cases rule: User_findById_cases[of d l])
      case raise
      with b range show ?thesis by (simp add: createRating_def gate_defs)
    next
      case missing
      with b range show ?thesis by (simp add: createRating_def gate_defs)
    next
      case learner: (found u)
      show ?thesis
      proof (cases rule: User_findById_cases[of d t])
        case raise
        with b range learner show ?thesis by (simp add: createRating_def gate_defs)
      next
        case missing
        with b range learner show ?thesis by (simp add: createRating_def gate_defs)
      next
        case teacher: (found v)
        show ?thesis
        proof (cases rule: SkillListing_findById_cases[of d s])
          case raise
          with b range learner teacher show ?thesis
            by (simp add: createRating_def gate_defs)
        next
          case missing
          with b range learner teacher show ?thesis
            by (simp add: createRating_def gate_defs)
        next
          case listing: (found w)
          from learner(1) teacher(1) listing(1) show ?thesis
          proof (cases rule: Session_findOne_cases)
            case missing
            with b range learner teacher listing show ?thesis
              by (simp add: createRating_def gate_defs)
          next
            case session: (found x)
            from learner(1) teacher(1) listing(1) show ?thesis
            proof (cases rule: Rating_findOne_cases)
              case missing
              with b range learner teacher listing session show ?thesis
                by (simp add: createRating_def gate_defs)
            next
              case (found y)
              with b range learner teacher listing session show ?thesis
                by (simp add: createRating_def gate_defs)
            qed
          qed
        qed
      qed
    qed
  qed
qed

lemma example_gates [simp]:
  "completedSessionExists exampleStore alice bob guitar"
  "\<not> ratingExists exampleStore alice bob guitar"
  "\<not> completedSessionExists storeWithoutSession alice bob guitar"
  "ratingExists storeWithoutSession alice bob guitar"
  "userKnown exampleStore alice" "userKnown exampleStore bob"
  "userKnown storeWithoutSession alice" "userKnown storeWithoutSession bob"
  "listingKnown exampleStore guitar" "listingKnown storeWithoutSession guitar"
  by (simp_all add: completedSessionExists_def ratingExists_def userKnown_def
        listingKnown_def exampleStore_def storeWithoutSession_def exampleRating_def
        aliceUser_def bobUser_def danaUser_def guitarListing_def alice_def bob_def
        guitar_def)

lemma firstFailure_take:
  "firstFailure (take n gs) = Some e \<Longrightarrow> firstFailure gs = Some e"
proof (induction gs arbitrary: n rule: firstFailure.induct)
  case 1
  then show ?case by simp
next
  case (2 gs)
  then show ?case by (cases n) auto
next
  case (3 e' gs)
  then show ?case by (cases n) auto
qed

lemma firstFailure_None: "firstFailure gs = None \<Longrightarrow> \<forall>g \<in> set gs. g = None"
  by (induction gs rule: firstFailure.induct) auto

text \<open>
  Claim C10. The reply of \<open>createRating\<close> is the reply of the first gate that fails, in
  the order: missing fields, score range, learner exists, teacher exists, listing exists,
  completed session exists, duplicate rating; the store is then left as it was. The
  gates after the first failing one have no part in the reply: it is fixed by the gates
  up to that one. So a request that passes the first five gates and has no completed
  session is answered as forbidden, whether a rating of the triple exists or not. When no
  gate fails the rating is created.
\<close>

theorem createRating_gate_order:
  "(\<forall>e. firstFailure (gates d b) = Some e \<longrightarrow>
        reply (createRating d now newId b) = e \<and> store (createRating d now newId b) = d)
   \<and> (\<forall>n e. firstFailure (take n (gates d b)) = Some e \<longrightarrow>
        reply (createRating d now newId b) = e)
   \<and> (firstFailure (take 5 (gates d b)) = None
        \<and> \<not> completedSessionExists d (given (body_learnerID b)) (given (body_teacherID b))
              (given (body_listingID b)) \<longrightarrow>
        errorKind (reply (createRating d now newId b)) = Some ForbiddenError)
   \<and> (firstFailure (gates d b) = None \<longrightarrow>
        status (reply (createRating d now newId b)) = 201
        \<and> success (reply (createRating d now newId b))
        \<and> store (createRating d now newId b)
            = Rating_insert d
                \<lparr>rating_id = newId, learnerID = given (body_learnerID b),
                 teacherID = given (body_teacherID b),
                 listingID = given (body_listingID b),
                 rating = givenNumber (body_rating b), createdAt = now\<rparr>)"
proof -
  note g = createRating_by_gates[of d b now newId]
  have first: "\<forall>e. firstFailure (gates d b) = Some e \<longrightarrow>
        reply (createRating d now newId b) = e \<and> store (createRating d now newId b) = d"
    using g by blast
  have prefix: "reply (createRating d now newId b) = e"
    if "firstFailure (take n (gates d b)) = Some e" for n e
  proof -
    from that have "firstFailure (gates d b) = Some e" by (rule firstFailure_take)
    with first show ?thesis by blast
  qed
  have forbidden: "errorKind (reply (createRating d now newId b)) = Some ForbiddenError"
    if five: "firstFailure (take 5 (gates d b)) = None"
      and none: "\<not> completedSessionExists d (given (body_learnerID b))
                    (given (body_teacherID b)) (given (body_listingID b))"
  proof -
    have "\<forall>g \<in> set (take 5 (gates d b)). g = None"
      using five by (rule firstFailure_None)
    then have "firstFailure (take 6 (gates d b))
            = Some (json 403 ''You can only rate courses you have completed'' False NoData)"
      using none by (simp add: gates_def Let_def gateSession_def)
    then have "reply (createRating d now newId b)
            = json 403 ''You can only rate courses you have completed'' False NoData"
      by (rule prefix)
    then show ?thesis by simp
  qed
  have pass: "firstFailure (gates d b) = None \<longrightarrow>
        status (reply (createRating d now newId b)) = 201
        \<and> success (reply (createRating d now newId b))
        \<and> store (createRating d now newId b)
            = Rating_insert d
                \<lparr>rating_id = newId, learnerID = given (body_learnerID b),
                 teacherID = given (body_teacherID b),
                 listingID = given (body_listingID b),
                 rating = givenNumber (body_rating b), createdAt = now\<rparr>"
    using g by blast
  show ?thesis
    using first prefix forbidden pass by blast
qed

theorem createRating_gate_order_witness:
  "firstFailure (gates storeWithoutSession (aliceRates 4))
     = Some (json 403 ''You can only rate courses you have completed'' False NoData)
   \<and> firstFailure (take 5 (gates storeWithoutSession (aliceRates 4))) = None
   \<and> \<not> completedSessionExists storeWithoutSession alice bob guitar
   \<and> ratingExists storeWithoutSession alice bob guitar
   \<and> errorKind (reply (createRating storeWithoutSession 7 ''000000000000000000000007''
                         (aliceRates 4))) = Some ForbiddenError
   \<and> store (createRating storeWithoutSession 7 ''000000000000000000000007'' (aliceRates 4))
       = storeWithoutSession
   \<and> firstFailure (gates exampleStore (aliceRates 4)) = None
   \<and> status (reply (createRating exampleStore 7 ''000000000000000000000007''
                       (aliceRates 4))) = 201"
proof -
  have f: "firstFailure (gates storeWithoutSession (aliceRates 4))
     = Some (json 403 ''You can only rate courses you have completed'' False NoData)"
    by (simp add: gate_defs aliceRates_def)
  have t: "firstFailure (take 5 (gates storeWithoutSession (aliceRates 4))) = None"
    by (simp add: gate_defs aliceRates_def)
  have n: "firstFailure (gates exampleStore (aliceRates 4)) = None"
    by (simp add: gate_defs aliceRates_def)
  show ?thesis
    using f t n
      createRating_gate_order [of storeWithoutSession "aliceRates 4" 7
         "''000000000000000000000007''"]
      createRating_gate_order [of exampleStore "aliceRates 4" 7
         "''000000000000000000000007''"]
    by simp
qed

lemma failing_gate_not_success:
  "gateFields b = Some x \<Longrightarrow> \<not> success x"
  "gateScore b = Some x \<Longrightarrow> \<not> success x"
  "gateExists c k m = Some x \<Longrightarrow> \<not> success x"
  "gateSession d l t s = Some x \<Longrightarrow> \<not> success x"
  "gateDuplicate d l t s = Some x \<Longrightarrow> \<not> success x"
  by (auto simp: gateFields_def gateScore_def gateExists_def gateSession_def
        gateDuplicate_def internalError_def split: if_splits)

lemma firstFailure_in_set: "firstFailure gs = Some e \<Longrightarrow> Some e \<in> set gs"
  by (induction gs rule: firstFailure.induct) auto

lemma gate_failure_not_success:
  assumes "firstFailure (gates d b) = Some e"
  shows "\<not> success e"
proof -
  have "Some e \<in> set (gates d b)" using assms by (rule firstFailure_in_set)
  then show ?thesis
    unfolding gates_def Let_def using failing_gate_not_success by auto
qed

lemma example_queries [simp]:
  "Session_findOne storeWithoutSession alice bob guitar ''completed'' = Inr None"
  "Session_findOne exampleStore alice bob guitar ''completed''
     = Inr (Some \<lparr>session_learnerID = alice, session_teacherID = bob,
                      skillListingID = guitar, session_status = ''completed''\<rparr>)"
  "Rating_findOne exampleStore alice bob guitar = Inr None"
  by (simp_all add: Session_findOne_def Rating_findOne_def storeWithoutSession_def
        exampleStore_def exampleRating_def alice_def bob_def guitar_def hex24_def)

subsection \<open>Session and duplicate\<close>

text \<open>
  Claim C3, as the code has it. For a request with all four fields and a score between 1
  and 5, whose learner, teacher and listing resolve: without a completed session of the
  triple \<open>createRating\<close> fails as forbidden; with a completed session and a rating of
  the triple in the store it fails as a conflict. In both cases the store is left as it
  was.
\<close>

theorem createRating_forbidden_or_conflict:
  assumes "body_learnerID b = Some l" and "body_teacherID b = Some t"
      and "body_listingID b = Some s" and "body_rating b = Some r"
      and "l \<noteq> []" and "t \<noteq> []" and "s \<noteq> []" and "1 \<le> r" and "r \<le> 5"
      and "User_findById d l = Inr (Some learner)"
      and "User_findById d t = Inr (Some teacher)"
      and "SkillListing_findById d s = Inr (Some listing)"
  shows "(\<not> completedSessionExists d l t s \<longrightarrow>
            errorKind (reply (createRating d now newId b)) = Some ForbiddenError
            \<and> store (createRating d now newId b) = d)
       \<and> (completedSessionExists d l t s \<and> ratingExists d l t s \<longrightarrow>
            errorKind (reply (createRating d now newId b)) = Some ConflictError
            \<and> store (createRating d now newId b) = d)"
proof -
  note u = User_findById_results(3)[OF assms(10)] User_findById_results(3)[OF assms(11)]
    SkillListing_findById_results(3)[OF assms(12)]
  have r0: "r \<noteq> 0" using assms(8) by auto
  have a: "firstFailure (gates d b)
             = Some (json 403 ''You can only rate courses you have completed'' False NoData)"
    if "\<not> completedSessionExists d l t s"
    using that assms(1-9) u r0 by (simp add: gate_defs)
  have c: "firstFailure (gates d b)
             = Some (json 400 ''You have already rated this listing'' False NoData)"
    if "completedSessionExists d l t s" "ratingExists d l t s"
    using that assms(1-9) u r0 by (simp add: gate_defs)
  show ?thesis
    using a c createRating_by_gates[of d b now newId] by auto
qed

theorem createRating_forbidden_or_conflict_witness:
  "body_learnerID (aliceRates 4) = Some alice \<and> body_teacherID (aliceRates 4) = Some bob
   \<and> body_listingID (aliceRates 4) = Some guitar \<and> body_rating (aliceRates 4) = Some 4
   \<and> User_findById storeWithoutSession alice = Inr (Some aliceUser)
   \<and> User_findById storeWithoutSession bob = Inr (Some bobUser)
   \<and> SkillListing_findById storeWithoutSession guitar = Inr (Some guitarListing)
   \<and> \<not> completedSessionExists storeWithoutSession alice bob guitar
   \<and> errorKind (reply (createRating storeWithoutSession 7 ''000000000000000000000007''
                         (aliceRates 4))) = Some ForbiddenError
   \<and> store (createRating storeWithoutSession 7 ''000000000000000000000007'' (aliceRates 4))
       = storeWithoutSession"
  using createRating_forbidden_or_conflict
          [of "aliceRates 4" alice bob guitar 4 storeWithoutSession aliceUser bobUser
              guitarListing 7 "''000000000000000000000007''"]
  by (simp add: aliceRates_def)

text \<open>
  The claim as stated, that an existing rating of the triple gives a conflict, fails when
  the completed session is missing: the session is checked first.
\<close>

theorem createRating_duplicate_without_session_counterexample:
  "User_findById storeWithoutSession alice = Inr (Some aliceUser)
   \<and> User_findById storeWithoutSession bob = Inr (Some bobUser)
   \<and> SkillListing_findById storeWithoutSession guitar = Inr (Some guitarListing)
   \<and> ratingExists storeWithoutSession alice bob guitar
   \<and> errorKind (reply (createRating storeWithoutSession 7 ''000000000000000000000007''
                         (aliceRates 4))) = Some ForbiddenError"
  by (simp add: createRating_def aliceRates_def)

subsection \<open>Deleting twice, creating twice\<close>

lemma find_removeById:
  "distinct (map rating_id rs) \<Longrightarrow> find (\<lambda>x. rating_id x = i) (removeById i rs) = None"
proof (induction rs)
  case Nil
  then show ?case by simp
next
  case (Cons x xs)
  show ?case
  proof (cases "rating_id x = i")
    case True
    with Cons.prems have "i \<notin> rating_id ` set xs" by simp
    then have "\<forall>y \<in> set xs. rating_id y \<noteq> i" by blast
    with True show ?thesis by (simp add: find_None_set)
  next
    case False
    with Cons show ?thesis by simp
  qed
qed

lemma createRating_success_gates:
  assumes "success (reply (createRating d now newId b))"
  shows "firstFailure (gates d b) = None"
proof (cases "firstFailure (gates d b)")
  case None
  then show ?thesis .
next
  case (Some e)
  then have "reply (createRating d now newId b) = e"
    using createRating_by_gates[of d b now newId] by simp
  with assms gate_failure_not_success[OF Some] show ?thesis by simp
qed

lemma createRating_success_store:
  assumes "success (reply (createRating d now newId b))"
  shows "\<exists>r. body_rating b = Some r \<and> 1 \<le> r \<and> r \<le> 5
           \<and> store (createRating d now newId b)
               = d\<lparr>ratings := ratings d @
                     [\<lparr>rating_id = newId, learnerID = given (body_learnerID b),
                       teacherID = given (body_teacherID b),
                       listingID = given (body_listingID b), rating = r,
                       createdAt = now\<rparr>]\<rparr>"
proof -
  have none: "firstFailure (gates d b) = None"
    using assms by (rule createRating_success_gates)
  then have "\<forall>g \<in> set (gates d b). g = None" by (rule firstFailure_None)
  then have f: "gateFields b = None" and s: "gateScore b = None"
    by (simp_all add: gates_def Let_def)
  from f obtain r where r: "body_rating b = Some r"
    by (auto simp: gateFields_def falsyNumber_def split: if_splits option.splits)
  with s have "1 \<le> r \<and> r \<le> 5"
    by (auto simp: gateScore_def givenNumber_def split: if_splits)
  moreover have "store (createRating d now newId b)
               = d\<lparr>ratings := ratings d @
                     [\<lparr>rating_id = newId, learnerID = given (body_learnerID b),
                       teacherID = given (body_teacherID b),
                       listingID = given (body_listingID b), rating = r,
                       createdAt = now\<rparr>]\<rparr>"
    using none r createRating_by_gates[of d b now newId]
    by (simp add: Rating_insert_def givenNumber_def)
  ultimately show ?thesis using r by blast
qed

text \<open>
  Claim C9. In a store whose ratings have distinct identifiers, a second \<open>deleteRating\<close>
  with the same arguments leaves the store as the first call left it (after a first call
  that deleted, the second finds nothing and answers that the rating is not found).
  \<open>createRating\<close> does not accept a submission twice: after a submission that created a
  rating, the same submission is rejected as a duplicate and nothing is added or merged.
\<close>

theorem deleteRating_idempotent_createRating_not:
  assumes "distinct (map rating_id (ratings d))"
  shows "store (deleteRating (store (deleteRating d now ratingId u)) now' ratingId u)
           = store (deleteRating d now ratingId u)
       \<and> (success (reply (deleteRating d now ratingId u)) \<longrightarrow>
            errorKind (reply (deleteRating (store (deleteRating d now ratingId u))
                                now' ratingId u)) = Some NotFoundError)
       \<and> (success (reply (createRating d now newId b)) \<longrightarrow>
            errorKind (reply (createRating (store (createRating d now newId b))
                                now' newId' b)) = Some ConflictError
            \<and> store (createRating (store (createRating d now newId b)) now' newId' b)
                = store (createRating d now newId b))"
proof -
  have del: "store (deleteRating (store (deleteRating d now ratingId u)) now' ratingId u)
               = store (deleteRating d now ratingId u)
             \<and> (success (reply (deleteRating d now ratingId u)) \<longrightarrow>
                  errorKind (reply (deleteRating (store (deleteRating d now ratingId u))
                                      now' ratingId u)) = Some NotFoundError)"
  proof (cases ratingId)
    case None
    then show ?thesis by (simp add: deleteRating_def)
  next
    case (Some i)
    show ?thesis
    proof (cases "i = [] \<or> length i \<noteq> 24")
      case True
      with Some show ?thesis by (auto simp: deleteRating_def)
    next
      case wf: False
      show ?thesis
      proof (cases "Rating_findById d i")
        case (Inl e)
        with Some wf show ?thesis by (simp add: deleteRating_def internalErrorWith_def)
      next
        case (Inr x)
        show ?thesis
        proof (cases x)
          case None
          with Some wf Inr show ?thesis by (simp add: deleteRating_def)
        next
          case found: (Some r)
          show ?thesis
          proof (cases "learnerID r = u")
            case False
            with Some wf Inr found show ?thesis by (simp add: deleteRating_def)
          next
            case True
            have c: "castable d i"
              using Inr by (simp add: Rating_findById_def split: if_splits)
            have first: "deleteRating d now (Some i) u
                    = finish (Rating_findByIdAndDelete d i)
                        [Rating_findById_call i, Rating_findByIdAndDelete_call i]
                        (json 200 ''Rating deleted successfully'' True
                           (DeletedRating
                              \<lparr>dr_id = rating_id r, dr_learnerID = learnerID r,
                               dr_teacherID = teacherID r, dr_listingID = listingID r,
                               dr_rating = rating r, deletedAt = now\<rparr>))"
              using wf Inr found True by (simp add: deleteRating_def)
            have gone: "Rating_findById (Rating_findByIdAndDelete d i) i = Inr None"
              using c find_removeById[OF assms, of i]
              by (simp add: Rating_findById_def Rating_findByIdAndDelete_def)
            have second: "deleteRating (Rating_findByIdAndDelete d i) now' (Some i) u
                    = finish (Rating_findByIdAndDelete d i) [Rating_findById_call i]
                        (json 404 ''Rating not found'' False NoData)"
              using wf gone by (simp add: deleteRating_def)
            show ?thesis unfolding Some first outcome_finish second by simp
          qed
        qed
      qed
    qed
  qed
  have cre: "errorKind (reply (createRating (store (createRating d now newId b))
                                now' newId' b)) = Some ConflictError
            \<and> store (createRating (store (createRating d now newId b)) now' newId' b)
                = store (createRating d now newId b)"
    if ok: "success (reply (createRating d now newId b))"
  proof -
    define d' where "d' = store (createRating d now newId b)"
    have none: "firstFailure (gates d b) = None"
      using ok by (rule createRating_success_gates)
    from createRating_success_store[OF ok] obtain r where
      st: "d' = d\<lparr>ratings := ratings d @
                     [\<lparr>rating_id = newId, learnerID = given (body_learnerID b),
                       teacherID = given (body_teacherID b),
                       listingID = given (body_listingID b), rating = r,
                       createdAt = now\<rparr>]\<rparr>"
      unfolding d'_def by blast
    have same: "castable d' = castable d" "userKnown d' = userKnown d"
      "listingKnown d' = listingKnown d"
      "completedSessionExists d' = completedSessionExists d"
      by (simp_all add: st fun_eq_iff userKnown_def listingKnown_def
            completedSessionExists_def)
    have dup: "ratingExists d' (given (body_learnerID b)) (given (body_teacherID b))
                 (given (body_listingID b))"
      by (simp add: st ratingExists_def)
    have all: "\<forall>g \<in> set (gates d b). g = None"
      using none by (rule firstFailure_None)
    have "firstFailure (gates d' b)
            = Some (json 400 ''You have already rated this listing'' False NoData)"
      using all dup by (simp add: gates_def Let_def same gateDuplicate_def gateSession_def)
    then show ?thesis
      using createRating_by_gates[of d' b now' newId'] unfolding d'_def by simp
  qed
  show ?thesis using del cre by blast
qed

lemma example_first_rating [simp]:
  "Rating_findById exampleStore ''000000000000000000000001''
     = Inr (Some (exampleRating ''000000000000000000000001'' ''111111111111111111111111'' 5 1))"
  "distinct (map rating_id (ratings exampleStore))"
  by (simp_all add: Rating_findById_def exampleStore_def exampleRating_def hex24_def)

lemma example_create_passes [simp]:
  "firstFailure (gates exampleStore (aliceRates v)) = (if v = 0 \<or> v < 1 \<or> 5 < v
     then firstFailure [gateFields (aliceRates v), gateScore (aliceRates v)] else None)"
  by (simp add: gate_defs aliceRates_def)

theorem deleteRating_idempotent_createRating_not_witness:
  "distinct (map rating_id (ratings exampleStore))
   \<and> success (reply (deleteRating exampleStore 7 (Some ''000000000000000000000001'')
                       ''111111111111111111111111''))
   \<and> store (deleteRating
              (store (deleteRating exampleStore 7 (Some ''000000000000000000000001'')
                        ''111111111111111111111111''))
              8 (Some ''000000000000000000000001'') ''111111111111111111111111'')
       = store (deleteRating exampleStore 7 (Some ''000000000000000000000001'')
                  ''111111111111111111111111'')
   \<and> errorKind (reply (deleteRating
              (store (deleteRating exampleStore 7 (Some ''000000000000000000000001'')
                        ''111111111111111111111111''))
              8 (Some ''000000000000000000000001'') ''111111111111111111111111''))
       = Some NotFoundError
   \<and> success (reply (createRating exampleStore 7 ''000000000000000000000007''
                       (aliceRates 4)))
   \<and> errorKind (reply (createRating
              (store (createRating exampleStore 7 ''000000000000000000000007''
                        (aliceRates 4)))
              8 ''000000000000000000000008'' (aliceRates 4)))
       = Some ConflictError"
proof -
  have h: "distinct (map rating_id (ratings exampleStore))" by simp
  have s1: "success (reply (deleteRating exampleStore 7 (Some ''000000000000000000000001'')
                       ''111111111111111111111111''))"
    by (simp add: deleteRating_def exampleRating_def)
  have s2: "success (reply (createRating exampleStore 7 ''000000000000000000000007''
                       (aliceRates 4)))"
    using createRating_by_gates [of exampleStore "aliceRates 4" 7
            "''000000000000000000000007''"]
    by simp
  show ?thesis
    using h s1 s2
      deleteRating_idempotent_createRating_not
        [OF h, of 7 "Some ''000000000000000000000001''" "''111111111111111111111111''" 8
            "''000000000000000000000007''" "aliceRates 4" "''000000000000000000000008''"]
    by blast
qed

subsection \<open>The scores that are persisted\<close>

lemma setRating_in_range:
  "list_all (\<lambda>x. 1 \<le> rating x \<and> rating x \<le> 5) rs \<Longrightarrow> 1 \<le> v \<Longrightarrow> v \<le> 5 \<Longrightarrow>
   list_all (\<lambda>x. 1 \<le> rating x \<and> rating x \<le> 5) (setRating i v rs)"
  by (induction rs) auto

lemma updateRating_success:
  assumes "success (reply (updateRating d ratingId v))"
  shows "\<exists>i r. ratingId = Some i \<and> v = Some r \<and> 1 \<le> r \<and> r \<le> 5
           \<and> store (updateRating d ratingId v) = Rating_update d i r"
  using assms
  by (auto simp: updateRating_def internalError_def falsy_def falsyNumber_def
           split: option.splits sum.splits if_splits)

lemma updateRating_failure:
  assumes "\<not> success (reply (updateRating d ratingId v))"
  shows "store (updateRating d ratingId v) = d"
  using assms
  by (auto simp: updateRating_def internalError_def falsy_def falsyNumber_def
           split: option.splits sum.splits if_splits)

text \<open>
  Claim C2, as the code has it. \<open>createRating\<close> and \<open>updateRating\<close> accept a score only
  if it is a number from 1 to 5; they do not ask for an integer. The score they store is
  the score of the request, so when every score of the store lies between 1 and 5
  before a request, every score lies between 1 and 5 after it.
\<close>

theorem persisted_scores_between_1_and_5:
  "(success (reply (createRating d now newId b)) \<longrightarrow>
      (\<exists>r. body_rating b = Some r \<and> 1 \<le> r \<and> r \<le> 5
           \<and> map rating (ratings (store (createRating d now newId b)))
               = map rating (ratings d) @ [r]))
   \<and> (success (reply (updateRating d ratingId v)) \<longrightarrow>
        (\<exists>i r. ratingId = Some i \<and> v = Some r \<and> 1 \<le> r \<and> r \<le> 5
              \<and> ratings (store (updateRating d ratingId v)) = setRating i r (ratings d)))
   \<and> (scoresInRange d \<longrightarrow>
        scoresInRange (store (createRating d now newId b))
        \<and> scoresInRange (store (updateRating d ratingId v)))"
proof -
  have c: "\<exists>r. body_rating b = Some r \<and> 1 \<le> r \<and> r \<le> 5
           \<and> map rating (ratings (store (createRating d now newId b)))
               = map rating (ratings d) @ [r]"
    if "success (reply (createRating d now newId b))"
    using createRating_success_store[OF that] by auto
  have u: "\<exists>i r. ratingId = Some i \<and> v = Some r \<and> 1 \<le> r \<and> r \<le> 5
              \<and> ratings (store (updateRating d ratingId v)) = setRating i r (ratings d)"
    if "success (reply (updateRating d ratingId v))"
    using updateRating_success[OF that] by (auto simp: Rating_update_def)
  have ci: "scoresInRange (store (createRating d now newId b))" if r: "scoresInRange d"
  proof (cases "success (reply (createRating d now newId b))")
    case True
    from createRating_success_store[OF True] r show ?thesis
      by (auto simp: scoresInRange_def)
  next
    case False
    then have "firstFailure (gates d b) \<noteq> None"
      using createRating_by_gates[of d b now newId] by auto
    then have "store (createRating d now newId b) = d"
      using createRating_by_gates[of d b now newId] by auto
    with r show ?thesis by simp
  qed
  have ui: "scoresInRange (store (updateRating d ratingId v))" if r: "scoresInRange d"
  proof (cases "success (reply (updateRating d ratingId v))")
    case True
    from updateRating_success[OF True] r show ?thesis
      by (auto simp: scoresInRange_def Rating_update_def setRating_in_range)
  next
    case False
    then show ?thesis using r updateRating_failure by simp
  qed
  show ?thesis using c u ci ui by blast
qed

theorem persisted_scores_between_1_and_5_witness:
  "success (reply (createRating exampleStore 7 ''000000000000000000000007'' (aliceRates 4)))
   \<and> scoresInRange exampleStore
   \<and> map rating (ratings (store (createRating exampleStore 7 ''000000000000000000000007''
                                    (aliceRates 4)))) = [5, 5, 4, 3, 5, 4]
   \<and> scoresInRange (store (createRating exampleStore 7 ''000000000000000000000007''
                              (aliceRates 4)))
   \<and> success (reply (updateRating exampleStore (Some ''000000000000000000000001'') (Some 2)))
   \<and> scoresInRange (store (updateRating exampleStore (Some ''000000000000000000000001'')
                              (Some 2)))"
proof -
  have s1: "success (reply (createRating exampleStore 7 ''000000000000000000000007''
                       (aliceRates 4)))"
    using createRating_by_gates [of exampleStore "aliceRates 4" 7
            "''000000000000000000000007''"]
    by simp
  have s2: "success (reply (updateRating exampleStore (Some ''000000000000000000000001'')
                       (Some 2)))"
    by (simp add: updateRating_def falsy_def falsyNumber_def)
  have r: "scoresInRange exampleStore"
    by (simp add: scoresInRange_def exampleStore_def exampleRating_def)
  have m: "map rating (ratings exampleStore) = [5, 5, 4, 3, 5]"
    by (simp add: exampleStore_def exampleRating_def)
  show ?thesis
    using s1 s2 r m
      persisted_scores_between_1_and_5
        [of exampleStore 7 "''000000000000000000000007''" "aliceRates 4"
            "Some ''000000000000000000000001''" "Some 2"]
    by (auto simp: aliceRates_def)
qed

text \<open>
  The claim as stated, that only an integer is accepted and stored, fails: the score 4.5
  passes both handlers and is stored.
\<close>

theorem fractional_score_persisted_counterexample:
  "status (reply (createRating exampleStore 7 ''000000000000000000000007''
                    (aliceRates (9 / 2)))) = 201
   \<and> map rating (ratings (store (createRating exampleStore 7 ''000000000000000000000007''
                                    (aliceRates (9 / 2))))) = [5, 5, 4, 3, 5, 9 / 2]
   \<and> status (reply (updateRating exampleStore (Some ''000000000000000000000001'')
                       (Some (9 / 2)))) = 200
   \<and> map rating (ratings (store (updateRating exampleStore
                                    (Some ''000000000000000000000001'') (Some (9 / 2)))))
       = [9 / 2, 5, 4, 3, 5]
   \<and> of_int \<lfloor>9 / 2 :: rat\<rfloor> \<noteq> (9 / 2 :: rat)"
  by (simp add: createRating_def aliceRates_def Rating_insert_def updateRating_def
        Let_def falsy_def falsyNumber_def Rating_update_def exampleStore_def exampleRating_def
        User_findById_def SkillListing_findById_def Session_findOne_def Rating_findOne_def
        Rating_findById_def aliceUser_def bobUser_def danaUser_def guitarListing_def
        alice_def bob_def dana_def guitar_def hex24_def)

subsection \<open>Deleting a rating\<close>



subsection \<open>Identifiers that are not well formed\<close>

lemma updateRating_first_call:
  assumes "i \<noteq> []" and "1 \<le> r" and "r \<le> 5"
  shows "take 1 (calls (updateRating d (Some i) (Some r))) = [Rating_findById_call i]"
  using assms
  by (simp add: updateRating_def falsy_def falsyNumber_def split: sum.splits option.splits)

lemma createRating_first_call:
  assumes "l \<noteq> []" and "t \<noteq> []" and "s \<noteq> []" and "1 \<le> r" and "r \<le> 5"
  shows "take 1 (calls (createRating d now newId
                         \<lparr>body_learnerID = Some l, body_teacherID = Some t,
                          body_listingID = Some s, body_rating = Some r\<rparr>))
           = [User_findById_call l]"
proof -
  have r0: "r \<noteq> 0" "\<not> (r < 1 \<or> 5 < r)" using assms by auto
  have c: "take 1 (calls (finish d' (User_findById_call l # cs) x)) = [User_findById_call l]"
    for d' cs x by simp
  show ?thesis
    unfolding createRating_def Let_def
    using assms(1-3) r0
    by (simp only: c create_body.simps prod.case option.case if_False
          split: sum.split option.split) simp
qed

text \<open>
  Claim C8, as the code has it. \<open>deleteRating\<close>, \<open>getRatingsByUserId\<close> and
  \<open>getAverageRatingsByTeacherId\<close> reject an identifier that is not 24 characters long as
  a validation error before any call on the store. Every handler that takes an
  identifier from the request rejects a missing or empty one in that way.
  \<open>getRatingsByListing\<close>, \<open>getAverageRating\<close>, \<open>updateRating\<close> and \<open>createRating\<close> check
  nothing else of an identifier: the first thing they do with one that is not empty, in
  a request that is valid otherwise, is to pass it to the store.
\<close>

theorem identifier_length_checked_before_store:
  "(length i \<noteq> 24 \<longrightarrow>
      errorKind (reply (deleteRating d now (Some i) u)) = Some ValidationError
      \<and> calls (deleteRating d now (Some i) u) = []
      \<and> store (deleteRating d now (Some i) u) = d
      \<and> errorKind (reply (getRatingsByUserId d (Some i))) = Some ValidationError
      \<and> calls (getRatingsByUserId d (Some i)) = []
      \<and> store (getRatingsByUserId d (Some i)) = d
      \<and> errorKind (reply (getAverageRatingsByTeacherId d (Some i))) = Some ValidationError
      \<and> calls (getAverageRatingsByTeacherId d (Some i)) = []
      \<and> store (getAverageRatingsByTeacherId d (Some i)) = d)
   \<and> (falsy x \<longrightarrow>
        errorKind (reply (deleteRating d now x u)) = Some ValidationError
        \<and> calls (deleteRating d now x u) = []
        \<and> errorKind (reply (updateRating d x v)) = Some ValidationError
        \<and> calls (updateRating d x v) = []
        \<and> errorKind (reply (getRatingsByListing d x)) = Some ValidationError
        \<and> calls (getRatingsByListing d x) = []
        \<and> errorKind (reply (getAverageRating d x)) = Some ValidationError
        \<and> calls (getAverageRating d x) = []
        \<and> errorKind (reply (getRatingsByUserId d x)) = Some ValidationError
        \<and> calls (getRatingsByUserId d x) = []
        \<and> errorKind (reply (getRatingsByLearnerId d x)) = Some ValidationError
        \<and> calls (getRatingsByLearnerId d x) = []
        \<and> errorKind (reply (getAverageRatingsByTeacherId d x)) = Some ValidationError
        \<and> calls (getAverageRatingsByTeacherId d x) = []
        \<and> errorKind (reply (createRating d now newId (b\<lparr>body_learnerID := x\<rparr>)))
            = Some ValidationError
        \<and> calls (createRating d now newId (b\<lparr>body_learnerID := x\<rparr>)) = [])
   \<and> (i \<noteq> [] \<longrightarrow>
        calls (getRatingsByListing d (Some i)) = [Rating_find_listing_call i]
        \<and> calls (getAverageRating d (Some i)) = [Rating_find_listing_call i]
        \<and> (1 \<le> r \<and> r \<le> 5 \<longrightarrow>
             take 1 (calls (updateRating d (Some i) (Some r))) = [Rating_findById_call i]
             \<and> (t \<noteq> [] \<and> s \<noteq> [] \<longrightarrow>
                  take 1 (calls (createRating d now newId
                                   \<lparr>body_learnerID = Some i, body_teacherID = Some t,
                                    body_listingID = Some s, body_rating = Some r\<rparr>))
                    = [User_findById_call i])))"
proof -
  have a: "errorKind (reply (deleteRating d now (Some i) u)) = Some ValidationError
      \<and> calls (deleteRating d now (Some i) u) = []
      \<and> store (deleteRating d now (Some i) u) = d
      \<and> errorKind (reply (getRatingsByUserId d (Some i))) = Some ValidationError
      \<and> calls (getRatingsByUserId d (Some i)) = []
      \<and> store (getRatingsByUserId d (Some i)) = d
      \<and> errorKind (reply (getAverageRatingsByTeacherId d (Some i))) = Some ValidationError
      \<and> calls (getAverageRatingsByTeacherId d (Some i)) = []
      \<and> store (getAverageRatingsByTeacherId d (Some i)) = d"
    if "length i \<noteq> 24"
    using that
    by (simp add: deleteRating_def getRatingsByUserId_def getAverageRatingsByTeacherId_def)
  have b: "errorKind (reply (deleteRating d now x u)) = Some ValidationError
        \<and> calls (deleteRating d now x u) = []
        \<and> errorKind (reply (updateRating d x v)) = Some ValidationError
        \<and> calls (updateRating d x v) = []
        \<and> errorKind (reply (getRatingsByListing d x)) = Some ValidationError
        \<and> calls (getRatingsByListing d x) = []
        \<and> errorKind (reply (getAverageRating d x)) = Some ValidationError
        \<and> calls (getAverageRating d x) = []
        \<and> errorKind (reply (getRatingsByUserId d x)) = Some ValidationError
        \<and> calls (getRatingsByUserId d x) = []
        \<and> errorKind (reply (getRatingsByLearnerId d x)) = Some ValidationError
        \<and> calls (getRatingsByLearnerId d x) = []
        \<and> errorKind (reply (getAverageRatingsByTeacherId d x)) = Some ValidationError
        \<and> calls (getAverageRatingsByTeacherId d x) = []
        \<and> errorKind (reply (createRating d now newId (b\<lparr>body_learnerID := x\<rparr>)))
            = Some ValidationError
        \<and> calls (createRating d now newId (b\<lparr>body_learnerID := x\<rparr>)) = []"
    if "falsy x"
  proof (cases x)
    case None
    then show ?thesis
      by (simp add: deleteRating_def updateRating_def getRatingsByListing_def
            getAverageRating_def getRatingsByUserId_def getRatingsByLearnerId_def
            getAverageRatingsByTeacherId_def falsy_def createRating_def
          split: option.splits)
  next
    case (Some s)
    with that have "s = []" by (simp add: falsy_def)
    with Some show ?thesis
      by (simp add: deleteRating_def updateRating_def getRatingsByListing_def
            getAverageRating_def getRatingsByUserId_def getRatingsByLearnerId_def
            getAverageRatingsByTeacherId_def falsy_def createRating_def
          split: option.splits)
  qed
  have c: "calls (getRatingsByListing d (Some i)) = [Rating_find_listing_call i]
        \<and> calls (getAverageRating d (Some i)) = [Rating_find_listing_call i]"
    if "i \<noteq> []"
    using that
    by (simp add: getRatingsByListing_def getAverageRating_def Let_def split: sum.splits)
  have u: "take 1 (calls (updateRating d (Some i) (Some r))) = [Rating_findById_call i]"
    if "i \<noteq> []" "1 \<le> r" "r \<le> 5"
    using that by (rule updateRating_first_call)
  have k: "take 1 (calls (createRating d now newId
                            \<lparr>body_learnerID = Some i, body_teacherID = Some t,
                             body_listingID = Some s, body_rating = Some r\<rparr>))
             = [User_findById_call i]"
    if "i \<noteq> []" "t \<noteq> []" "s \<noteq> []" "1 \<le> r" "r \<le> 5"
    using that by (rule createRating_first_call)
  show ?thesis using a b c u k by blast
qed

theorem identifier_length_checked_before_store_witness:
  "length ''abc'' \<noteq> 24 \<and> falsy None \<and> ''abc'' \<noteq> []
   \<and> errorKind (reply (deleteRating exampleStore 7 (Some ''abc'') alice))
       = Some ValidationError
   \<and> calls (deleteRating exampleStore 7 (Some ''abc'') alice) = []
   \<and> errorKind (reply (getAverageRatingsByTeacherId exampleStore (Some ''abc'')))
       = Some ValidationError
   \<and> calls (getAverageRatingsByTeacherId exampleStore (Some ''abc'')) = []
   \<and> errorKind (reply (getRatingsByListing exampleStore None)) = Some ValidationError
   \<and> calls (getRatingsByListing exampleStore None) = []
   \<and> calls (getRatingsByListing exampleStore (Some ''abc''))
       = [Rating_find_listing_call ''abc'']
   \<and> take 1 (calls (updateRating exampleStore (Some ''abc'') (Some 4)))
       = [Rating_findById_call ''abc'']"
  using identifier_length_checked_before_store
          [of "''abc''" exampleStore 7 alice None "Some 4" "''000000000000000000000007''"
              "aliceRates 4" 4 bob guitar]
  by (simp add: falsy_def)

text \<open>
  The claim as stated, that every handler rejects a malformed identifier before it calls
  the store, fails: \<open>updateRating\<close> and \<open>createRating\<close> hand the identifier \<open>abc\<close> to the
  store, and the failure of the store is answered as an internal error.
\<close>

theorem malformed_identifier_reaches_store_counterexample:
  "\<not> castable exampleStore ''abc''
   \<and> calls (updateRating exampleStore (Some ''abc'') (Some 4)) = [Rating_findById_call ''abc'']
   \<and> errorKind (reply (updateRating exampleStore (Some ''abc'') (Some 4)))
       = Some InternalError
   \<and> calls (createRating exampleStore 7 ''000000000000000000000007''
              ((aliceRates 4)\<lparr>body_learnerID := Some ''abc''\<rparr>))
       = [User_findById_call ''abc'']
   \<and> errorKind (reply (createRating exampleStore 7 ''000000000000000000000007''
                         ((aliceRates 4)\<lparr>body_learnerID := Some ''abc''\<rparr>)))
       = Some InternalError"
  by (simp add: updateRating_def createRating_def aliceRates_def falsy_def falsyNumber_def
        Rating_findById_def User_findById_def hex24_def internalError_def)

text \<open>
  In \<open>getRatingsByLearnerId\<close> the check of the identifier's length is commented out in
  the source, so the handler as it stands passes \<open>abc\<close> to the store as well.
\<close>

lemma getRatingsByLearnerId_unchecked:
  "calls (getRatingsByLearnerId exampleStore (Some ''abc'')) = [User_findOne_call ''abc'']
   \<and> errorKind (reply (getRatingsByLearnerId exampleStore (Some ''abc'')))
       = Some InternalError"
  by (simp add: getRatingsByLearnerId_def User_findOne_def hex24_def internalErrorWith_def)

end
